theory Spec2Isabelle
  imports Complex_Main "HOL-Library.Sublist" "HOL-Library.Log_Nat"
begin

section \<open>JSON values and the JavaScript operations the handler applies to them\<close>

text \<open>
  The route handler \<^verbatim>\<open>POST\<close> works on values that \<^verbatim>\<open>JSON.parse\<close> produced: the request
  body, the OCR provider's response and the workflow provider's response. An object is the
  list of its properties in enumeration order, every key once. \<^verbatim>\<open>undefined\<close> is \<open>None\<close> of
  an option type. Strings are the UTF-8 bytes of the text: the handler only tests strings
  for emptiness, splits at the ASCII comma, concatenates and quotes them, and all of these
  agree on the UTF-8 bytes and on JavaScript's UTF-16 code units. Numbers are the
  integer-valued ones, which \<^verbatim>\<open>JSON.stringify\<close> prints in plain decimal; numbers with a
  fraction or an exponent are not represented.
\<close>

datatype json = JNull | JBool bool | JNum int | JStr string | JArr "json list"
  | JObj "(string \<times> json) list"

text \<open>\<^verbatim>\<open>!v\<close> is \<open>\<not> truthy v\<close>; \<^verbatim>\<open>undefined\<close> is falsy.\<close>

fun truthy :: "json \<Rightarrow> bool" where
  "truthy JNull = False"
| "truthy (JBool b) = b"
| "truthy (JNum n) = (n \<noteq> 0)"
| "truthy (JStr s) = (s \<noteq> [])"
| "truthy (JArr xs) = True"
| "truthy (JObj fs) = True"

fun truthy_opt :: "json option \<Rightarrow> bool" where
  "truthy_opt None = False"
| "truthy_opt (Some v) = truthy v"

text \<open>
  \<^verbatim>\<open>v.k\<close> on a value that is neither \<^verbatim>\<open>null\<close> nor \<^verbatim>\<open>undefined\<close>, for the names the handler
  reads (\<^verbatim>\<open>image\<close>, \<^verbatim>\<open>prompt\<close>, \<^verbatim>\<open>responses\<close>, \<^verbatim>\<open>textAnnotations\<close>, \<^verbatim>\<open>description\<close>, \<^verbatim>\<open>data\<close>,
  \<^verbatim>\<open>outputs\<close>, \<^verbatim>\<open>result\<close>): only an object can have them, no prototype defines them.
\<close>

fun property :: "json \<Rightarrow> string \<Rightarrow> json option" where
  "property (JObj fs) k = map_of fs k"
| "property v k = None"

text \<open>
  \<^verbatim>\<open>v[0]\<close> on a value that is neither \<^verbatim>\<open>null\<close> nor \<^verbatim>\<open>undefined\<close>. Of a string it is the
  string of its first character (here: its first byte); the handler only reads a property
  of it, and a string has none of the properties the handler reads.
\<close>

fun index0 :: "json \<Rightarrow> json option" where
  "index0 (JArr xs) = (case xs of [] \<Rightarrow> None | x # _ \<Rightarrow> Some x)"
| "index0 (JObj fs) = map_of fs ''0''"
| "index0 (JStr s) = (case s of [] \<Rightarrow> None | c # _ \<Rightarrow> Some (JStr [c]))"
| "index0 v = None"

text \<open>\<^verbatim>\<open>v?.k\<close>: \<^verbatim>\<open>undefined\<close> when \<open>v\<close> is \<^verbatim>\<open>null\<close> or \<^verbatim>\<open>undefined\<close>.\<close>

fun optional :: "json option \<Rightarrow> string \<Rightarrow> json option" where
  "optional None k = None"
| "optional (Some JNull) k = None"
| "optional (Some v) k = property v k"

text \<open>
  \<^verbatim>\<open>l > 0\<close> for a property value \<open>l\<close>. The comparison converts \<open>l\<close> to a number; for a
  string or an array that conversion parses text, which is the engine's work and not the
  handler's: \<open>gt\<close> stands for the engine's answer there.
\<close>

fun gt_zero :: "(json \<Rightarrow> bool) \<Rightarrow> json \<Rightarrow> bool" where
  "gt_zero gt JNull = False"
| "gt_zero gt (JBool b) = b"
| "gt_zero gt (JNum n) = (0 < n)"
| "gt_zero gt (JObj fs) = False"
| "gt_zero gt v = gt v"

text \<open>\<^verbatim>\<open>v.length > 0\<close> for a truthy \<open>v\<close>.\<close>

fun length_gt_zero :: "(json \<Rightarrow> bool) \<Rightarrow> json \<Rightarrow> bool" where
  "length_gt_zero gt (JArr xs) = (xs \<noteq> [])"
| "length_gt_zero gt (JStr s) = (s \<noteq> [])"
| "length_gt_zero gt (JObj fs) =
     (case map_of fs ''length'' of None \<Rightarrow> False | Some l \<Rightarrow> gt_zero gt l)"
| "length_gt_zero gt v = False"

text \<open>\<^verbatim>\<open>s.split(',')\<close> is \<open>split CHR '','' s\<close>; \<^verbatim>\<open>xs[i]\<close> on an array is \<open>nth_opt xs i\<close>.\<close>

fun split :: "char \<Rightarrow> string \<Rightarrow> string list" where
  "split c [] = [[]]"
| "split c (x # xs) =
     (if x = c then [] # split c xs
      else (case split c xs of [] \<Rightarrow> [[x]] | y # ys \<Rightarrow> (x # y) # ys))"

definition nth_opt :: "'a list \<Rightarrow> nat \<Rightarrow> 'a option" where
  "nth_opt xs i = (if i < length xs then Some (xs ! i) else None)"

subsection \<open>\<^verbatim>\<open>JSON.stringify\<close>\<close>

fun join :: "string \<Rightarrow> string list \<Rightarrow> string" where
  "join sep [] = []"
| "join sep [x] = x"
| "join sep (x # y # ys) = x @ sep @ join sep (y # ys)"

definition hex_digit :: "nat \<Rightarrow> char" where
  "hex_digit n = (if n < 10 then char_of (48 + n) else char_of (87 + n))"

definition QuoteJSONChar :: "char \<Rightarrow> string" where
  "QuoteJSONChar c =
     (let n = (of_char c :: nat) in
      if n = 8 then [CHR 0x5C, CHR ''b'']
      else if n = 9 then [CHR 0x5C, CHR ''t'']
      else if n = 10 then [CHR 0x5C, CHR ''n'']
      else if n = 12 then [CHR 0x5C, CHR ''f'']
      else if n = 13 then [CHR 0x5C, CHR ''r'']
      else if n = 34 then [CHR 0x5C, CHR 0x22]
      else if n = 92 then [CHR 0x5C, CHR 0x5C]
      else if n < 32 then
        [CHR 0x5C, CHR ''u'', CHR ''0'', CHR ''0'', hex_digit (n div 16), hex_digit (n mod 16)]
      else [c])"

definition QuoteJSONString :: "string \<Rightarrow> string" where
  "QuoteJSONString s = [CHR 0x22] @ concat (map QuoteJSONChar s) @ [CHR 0x22]"

fun show_nat :: "nat \<Rightarrow> string" where
  "show_nat n =
     (if n < 10 then [char_of (48 + n)] else show_nat (n div 10) @ [char_of (48 + n mod 10)])"

definition show_int :: "int \<Rightarrow> string" where
  "show_int i = (if i < 0 then CHR ''-'' # show_nat (nat (- i)) else show_nat (nat i))"

text \<open>
  The brackets around the serialized members of an array or an object: \<open>stepback\<close> is the
  indentation of the enclosing level, \<open>gap\<close> the indentation unit (empty for the compact
  form).
\<close>

definition wrap :: "string \<Rightarrow> string \<Rightarrow> string \<Rightarrow> string \<Rightarrow> string list \<Rightarrow> string" where
  "wrap gap stepback opening closing partial =
     (let indent = stepback @ gap in
      if partial = [] then opening @ closing
      else if gap = [] then opening @ join '','' partial @ closing
      else opening @ [CHR 0x0A] @ indent @ join ([CHR '','', CHR 0x0A] @ indent) partial
             @ [CHR 0x0A] @ stepback @ closing)"

fun SerializeJSONProperty :: "string \<Rightarrow> string \<Rightarrow> json \<Rightarrow> string" where
  "SerializeJSONProperty gap indent JNull = ''null''"
| "SerializeJSONProperty gap indent (JBool b) = (if b then ''true'' else ''false'')"
| "SerializeJSONProperty gap indent (JNum n) = show_int n"
| "SerializeJSONProperty gap indent (JStr s) = QuoteJSONString s"
| "SerializeJSONProperty gap indent (JArr xs) =
     wrap gap indent ''['' '']'' (map (SerializeJSONProperty gap (indent @ gap)) xs)"
| "SerializeJSONProperty gap indent (JObj fs) =
     wrap gap indent ''{'' ''}''
       (map (\<lambda>(k, v). QuoteJSONString k @ '':'' @ (if gap = [] then [] else '' '')
                         @ SerializeJSONProperty gap (indent @ gap) v) fs)"

text \<open>
  \<^verbatim>\<open>JSON.stringify(v, null, space)\<close> for a JSON value \<open>v\<close>; \<^verbatim>\<open>JSON.stringify(v)\<close> is
  \<open>JSON_stringify 0 v\<close>. Of \<^verbatim>\<open>undefined\<close> it is \<^verbatim>\<open>undefined\<close>.
\<close>

definition JSON_stringify :: "nat \<Rightarrow> json \<Rightarrow> string" where
  "JSON_stringify space v = SerializeJSONProperty (replicate (min 10 space) CHR '' '') [] v"

definition JSON_stringify_opt :: "nat \<Rightarrow> json option \<Rightarrow> json option" where
  "JSON_stringify_opt space v = map_option (\<lambda>x. JStr (JSON_stringify space x)) v"

text \<open>
  An object literal whose property values may be \<^verbatim>\<open>undefined\<close>, as \<^verbatim>\<open>JSON.stringify\<close> sees
  it: such properties are left out.
\<close>

definition props :: "(string \<times> json option) list \<Rightarrow> (string \<times> json) list" where
  "props fs = List.map_filter (\<lambda>(k, v). map_option (Pair k) v) fs"

section \<open>The route handler\<close>

datatype exn = TypeError string | SyntaxError string | RangeError string

fun message :: "exn \<Rightarrow> string" where
  "message (TypeError m) = m"
| "message (SyntaxError m) = m"
| "message (RangeError m) = m"

record http_request =
  url :: string
  http_method :: string
  headers :: "(string \<times> string) list"
  body :: string

text \<open>
  What \<^verbatim>\<open>fetch\<close> resolves to: \<open>res_text\<close> is what \<^verbatim>\<open>res.text()\<close> gives, \<open>res_json\<close> what
  \<^verbatim>\<open>res.json()\<close> gives, \<open>None\<close> when the body is not JSON and \<^verbatim>\<open>res.json()\<close> throws.
\<close>

record fetch_response =
  res_status :: nat
  res_text :: string
  res_json :: "json option"

datatype fetch_result = Rejected exn | Resolved fetch_response

definition ok :: "fetch_response \<Rightarrow> bool" where
  "ok res = (200 \<le> res_status res \<and> res_status res \<le> 299)"

record env =
  DIFY_API_KEY :: "string option"
  DIFY_API_URL :: "string option"
  GOOGLE_VISION_API_KEY :: "string option"

text \<open>An environment variable that passes \<^verbatim>\<open>if (!s)\<close>: set and not empty.\<close>

fun configured :: "string option \<Rightarrow> string option" where
  "configured None = None"
| "configured (Some s) = (if s = [] then None else Some s)"

record NextResponse =
  status :: nat
  payload :: json

text \<open>
  \<^verbatim>\<open>NextResponse.json(data, { status })\<close> builds a \<^verbatim>\<open>Response\<close> with a body. The constructor
  throws a \<^verbatim>\<open>RangeError\<close> for a status outside 200..599 and a \<^verbatim>\<open>TypeError\<close> for a status
  that allows no body (204, 205, 304; 101 and 103 are below 200).
\<close>

definition NextResponse_json :: "json \<Rightarrow> nat \<Rightarrow> exn + NextResponse" where
  "NextResponse_json data st =
     (if st < 200 \<or> 599 < st then
        Inl (RangeError ''init.status must be in the range of 200 to 599, inclusive.'')
      else if st = 204 \<or> st = 205 \<or> st = 304 then
        Inl (TypeError ''Response constructor: Invalid response status code'')
      else Inr \<lparr>status = st, payload = data\<rparr>)"

definition error_body :: "string \<Rightarrow> json" where
  "error_body msg = JObj [(''error'', JStr msg)]"

definition answer_body :: "json option \<Rightarrow> json" where
  "answer_body resultText = JObj (props [(''answer'', resultText)])"

subsection \<open>Stage 1: the OCR call\<close>

definition visionPayload :: "string option \<Rightarrow> json" where
  "visionPayload base64Data =
     JObj [(''requests'', JArr [JObj
       [(''image'', JObj (props [(''content'', map_option JStr base64Data)])),
        (''features'', JArr [JObj [(''type'', JStr ''TEXT_DETECTION'')]])]])]"

definition visionRequest :: "string \<Rightarrow> string option \<Rightarrow> http_request" where
  "visionRequest googleApiKey base64Data =
     \<lparr>url = ''https://vision.googleapis.com/v1/images:annotate?key='' @ googleApiKey,
      http_method = ''POST'',
      headers = [(''Content-Type'', ''application/json'')],
      body = JSON_stringify 0 (visionPayload base64Data)\<rparr>"

text \<open>
  Lines 63 to 65: \<^verbatim>\<open>visionData.responses[0]?.textAnnotations\<close> and the \<^verbatim>\<open>ocrText\<close> read from
  it. A member access on \<^verbatim>\<open>null\<close> or \<^verbatim>\<open>undefined\<close> throws.
\<close>

definition detections_of :: "json \<Rightarrow> exn + json option" where
  "detections_of visionData =
     (if visionData = JNull then
        Inl (TypeError ''Cannot read properties of null (reading 'responses')'')
      else case property visionData ''responses'' of
        None \<Rightarrow> Inl (TypeError ''Cannot read properties of undefined (reading '0')'')
      | Some JNull \<Rightarrow> Inl (TypeError ''Cannot read properties of null (reading '0')'')
      | Some responses \<Rightarrow> Inr (optional (index0 responses) ''textAnnotations''))"

definition ocrText_of :: "(json \<Rightarrow> bool) \<Rightarrow> json option \<Rightarrow> exn + json option" where
  "ocrText_of gt detections =
     (case detections of
        None \<Rightarrow> Inr (Some (JStr []))
      | Some d \<Rightarrow>
          if truthy d \<and> length_gt_zero gt d then
            (case index0 d of
               None \<Rightarrow> Inl (TypeError ''Cannot read properties of undefined (reading 'description')'')
             | Some JNull \<Rightarrow> Inl (TypeError ''Cannot read properties of null (reading 'description')'')
             | Some a \<Rightarrow> Inr (property a ''description''))
          else Inr (Some (JStr [])))"

subsection \<open>Stage 2: the workflow call\<close>

text \<open>The default instruction, line 79: the UTF-8 bytes of the eight Japanese characters.\<close>

definition default_prompt :: string where
  "default_prompt = map char_of
     [0xE6, 0x8A, 0xBD, 0xE5, 0x87, 0xBA, 0xE3, 0x81, 0x97, 0xE3, 0x81, 0xA6,
      0xE3, 0x81, 0x8F, 0xE3, 0x81, 0xA0, 0xE3, 0x81, 0x95, 0xE3, 0x81, 0x84 :: nat]"

text \<open>\<^verbatim>\<open>a || b\<close> with \<open>b\<close> defined.\<close>

fun or_else :: "json option \<Rightarrow> json \<Rightarrow> json" where
  "or_else None b = b"
| "or_else (Some a) b = (if truthy a then a else b)"

definition workflowPayload :: "json \<Rightarrow> json option \<Rightarrow> json" where
  "workflowPayload ocrText prompt =
     JObj [(''inputs'', JObj [(''ocr_text'', ocrText),
                              (''user_prompt'', or_else prompt (JStr default_prompt))]),
           (''response_mode'', JStr ''blocking''),
           (''user'', JStr ''image-extractor-user'')]"

definition difyApiUrl :: "env \<Rightarrow> string" where
  "difyApiUrl e =
     (case DIFY_API_URL e of
        None \<Rightarrow> ''https://api.dify.ai/v1''
      | Some u \<Rightarrow> if u \<noteq> [] then u else ''https://api.dify.ai/v1'')"

definition workflowRequest :: "env \<Rightarrow> string \<Rightarrow> json \<Rightarrow> json option \<Rightarrow> http_request" where
  "workflowRequest e difyApiKey ocrText prompt =
     \<lparr>url = difyApiUrl e @ ''/workflows/run'',
      http_method = ''POST'',
      headers = [(''Authorization'', ''Bearer '' @ difyApiKey),
                 (''Content-Type'', ''application/json'')],
      body = JSON_stringify 0 (workflowPayload ocrText prompt)\<rparr>"

text \<open>
  Line 105: \<^verbatim>\<open>workflowData.data?.outputs?.result || JSON.stringify(workflowData.data?.outputs,
  null, 2)\<close>.
\<close>

definition resultText_of :: "json \<Rightarrow> exn + json option" where
  "resultText_of workflowData =
     (if workflowData = JNull then
        Inl (TypeError ''Cannot read properties of null (reading 'data')'')
      else
        let outputs = optional (property workflowData ''data'') ''outputs'';
            result = optional outputs ''result''
        in Inr (if truthy_opt result then result else JSON_stringify_opt 2 outputs))"

subsection \<open>The handler\<close>

text \<open>
  The body of the \<^verbatim>\<open>try\<close> block, in three parts. Each returns what the block returns or
  throws, and the outbound requests it made, in order. \<open>fetch\<close> is the network: what each
  outbound request resolves to or is rejected with. The wording of the messages of the
  errors that the engine raises is the engine's; the calls of \<^verbatim>\<open>console.log\<close> and
  \<^verbatim>\<open>console.error\<close> are left out.
\<close>

definition POST_workflow ::
  "env \<Rightarrow> (http_request \<Rightarrow> fetch_result) \<Rightarrow> string \<Rightarrow> json \<Rightarrow> json option
     \<Rightarrow> (exn + NextResponse) \<times> http_request list" where
  "POST_workflow e fetch difyApiKey ocrText prompt =
     (let req = workflowRequest e difyApiKey ocrText prompt in
      case fetch req of
        Rejected err \<Rightarrow> (Inl err, [req])
      | Resolved workflowRes \<Rightarrow>
          if \<not> ok workflowRes then
            (NextResponse_json (error_body (''Analysis failed: '' @ res_text workflowRes))
               (res_status workflowRes), [req])
          else
            (case res_json workflowRes of
               None \<Rightarrow> (Inl (SyntaxError ''Unexpected token in JSON''), [req])
             | Some workflowData \<Rightarrow>
                 (case resultText_of workflowData of
                    Inl err \<Rightarrow> (Inl err, [req])
                  | Inr resultText \<Rightarrow> (NextResponse_json (answer_body resultText) 200, [req]))))"

definition POST_vision ::
  "(json \<Rightarrow> bool) \<Rightarrow> env \<Rightarrow> (http_request \<Rightarrow> fetch_result) \<Rightarrow> string \<Rightarrow> string
     \<Rightarrow> string option \<Rightarrow> json option \<Rightarrow> (exn + NextResponse) \<times> http_request list" where
  "POST_vision gt e fetch difyApiKey googleApiKey base64Data prompt =
     (let req = visionRequest googleApiKey base64Data in
      case fetch req of
        Rejected err \<Rightarrow> (Inl err, [req])
      | Resolved visionRes \<Rightarrow>
          if \<not> ok visionRes then
            (NextResponse_json (error_body (''Vision API Error: '' @ res_text visionRes))
               (res_status visionRes), [req])
          else
            (case res_json visionRes of
               None \<Rightarrow> (Inl (SyntaxError ''Unexpected token in JSON''), [req])
             | Some visionData \<Rightarrow>
                 (case detections_of visionData of
                    Inl err \<Rightarrow> (Inl err, [req])
                  | Inr detections \<Rightarrow>
                      (case ocrText_of gt detections of
                         Inl err \<Rightarrow> (Inl err, [req])
                       | Inr None \<Rightarrow>
                           (NextResponse_json (error_body ''No text detected in the image.'') 400,
                            [req])
                       | Inr (Some ocrText) \<Rightarrow>
                           if \<not> truthy ocrText then
                             (NextResponse_json (error_body ''No text detected in the image.'') 400,
                              [req])
                           else
                             (let (r, reqs) = POST_workflow e fetch difyApiKey ocrText prompt
                              in (r, req # reqs))))))"

definition POST_try ::
  "(json \<Rightarrow> bool) \<Rightarrow> env \<Rightarrow> (http_request \<Rightarrow> fetch_result) \<Rightarrow> json option
     \<Rightarrow> (exn + NextResponse) \<times> http_request list" where
  "POST_try gt e fetch req_json =
     (case req_json of
        None \<Rightarrow> (Inl (SyntaxError ''Unexpected end of JSON input''), [])
      | Some JNull \<Rightarrow> (Inl (TypeError ''Cannot destructure property 'image' of null''), [])
      | Some reqBody \<Rightarrow>
          let image = property reqBody ''image''; prompt = property reqBody ''prompt'' in
          if \<not> truthy_opt image then
            (NextResponse_json (error_body ''Image is required'') 400, [])
          else
            (case configured (DIFY_API_KEY e) of
               None \<Rightarrow> (NextResponse_json (error_body ''Dify API Key is not configured'') 500, [])
             | Some difyApiKey \<Rightarrow>
                 (case configured (GOOGLE_VISION_API_KEY e) of
                    None \<Rightarrow>
                      (NextResponse_json (error_body ''Google Vision API Key is not configured'')
                         500, [])
                  | Some googleApiKey \<Rightarrow>
                      (case image of
                         Some (JStr s) \<Rightarrow>
                           POST_vision gt e fetch difyApiKey googleApiKey
                             (nth_opt (split CHR '','' s) 1) prompt
                       | _ \<Rightarrow> (Inl (TypeError ''image.split is not a function''), [])))))"

text \<open>
  The handler with its \<^verbatim>\<open>catch\<close>: the response it sends and the outbound requests it made.
  \<open>req_json\<close> is what \<^verbatim>\<open>req.json()\<close> gives, \<open>None\<close> when the request body is not JSON.
\<close>

definition POST ::
  "(json \<Rightarrow> bool) \<Rightarrow> env \<Rightarrow> (http_request \<Rightarrow> fetch_result) \<Rightarrow> json option
     \<Rightarrow> NextResponse \<times> http_request list" where
  "POST gt e fetch req_json =
     (case POST_try gt e fetch req_json of
        (Inr response, reqs) \<Rightarrow> (response, reqs)
      | (Inl err, reqs) \<Rightarrow>
          (\<lparr>status = 500,
            payload = error_body (''Internal Server Error: '' @ message err)\<rparr>, reqs))"

section \<open>The page: preparing the image\<close>

subsection \<open>JavaScript numbers\<close>

text \<open>
  \<^verbatim>\<open>compressImage\<close> computes the scaled size in IEEE 754 double precision. A finite double
  is the rational it denotes. Every product and quotient is rounded to the nearest double,
  ties to the even significand: \<open>fl\<close>, for magnitudes in the normal range (between
  \<open>2 powi - 1022\<close> and \<open>2 powi 1024\<close>), where all numbers of \<^verbatim>\<open>compressImage\<close> lie.
  \<open>ilog2 x\<close> is the exponent \<open>e\<close> with \<open>2 powi e \<le> x < 2 powi (e + 1)\<close>.
\<close>

definition ilog2 :: "rat \<Rightarrow> int" where
  "ilog2 x = (if 1 \<le> x then int (floorlog 2 (nat \<lfloor>x\<rfloor>)) - 1
              else - int (floorlog 2 (nat (\<lceil>1 / x\<rceil> - 1))))"

definition round_half_even :: "rat \<Rightarrow> int" where
  "round_half_even y =
     (let f = \<lfloor>y\<rfloor>; r = y - of_int f in
      if r < 1 / 2 then f else if 1 / 2 < r then f + 1 else if even f then f else f + 1)"

definition fl :: "rat \<Rightarrow> rat" where
  "fl x = (if x = 0 then 0
           else let q = 2 powi (ilog2 \<bar>x\<bar> - 52) in
                sgn x * of_int (round_half_even (\<bar>x\<bar> / q)) * q)"

subsection \<open>\<^verbatim>\<open>compressImage\<close> and \<^verbatim>\<open>processFile\<close>\<close>

definition MAX_WIDTH :: rat where
  "MAX_WIDTH = 1024"

definition MAX_HEIGHT :: rat where
  "MAX_HEIGHT = 1024"

text \<open>
  \<^verbatim>\<open>canvas.width = x\<close>, then reading \<^verbatim>\<open>canvas.width\<close>: the number is converted to an
  \<^verbatim>\<open>unsigned long\<close> (truncated, modulo \<open>2 ^ 32\<close>), and a value above 2147483647 is replaced
  by the attribute's default (300 for the width, 150 for the height).
\<close>

definition canvas_dimension :: "nat \<Rightarrow> rat \<Rightarrow> nat" where
  "canvas_dimension dflt x =
     (let n = nat \<lfloor>x\<rfloor> mod 2 ^ 32 in if n \<le> 2147483647 then n else dflt)"

text \<open>
  Lines 36 to 54 of \<^verbatim>\<open>page.tsx\<close>: the size of the canvas for an image whose \<^verbatim>\<open>img.width\<close> and
  \<^verbatim>\<open>img.height\<close> are the two arguments. \<^verbatim>\<open>height *= MAX_WIDTH / width\<close> divides first, then
  multiplies.
\<close>

definition compressImage_canvas :: "nat \<Rightarrow> nat \<Rightarrow> nat \<times> nat" where
  "compressImage_canvas img_width img_height =
     (let width = (of_nat img_width :: rat);
          height = (of_nat img_height :: rat);
          (width, height) =
            (if width > height then
               (if width > MAX_WIDTH then (MAX_WIDTH, fl (height * fl (MAX_WIDTH / width)))
                else (width, height))
             else
               (if height > MAX_HEIGHT then (fl (width * fl (MAX_HEIGHT / height)), MAX_HEIGHT)
                else (width, height)))
      in (canvas_dimension 300 width, canvas_dimension 150 height))"

record File =
  file_type :: string
  file_bytes :: string

text \<open>
  The browser, as far as \<^verbatim>\<open>compressImage\<close> uses it: \<open>readAsDataURL\<close> is the data URL the
  \<^verbatim>\<open>FileReader\<close> loads (\<open>None\<close>: \<^verbatim>\<open>reader.onerror\<close>), \<open>decode\<close> the \<^verbatim>\<open>img.width\<close> and
  \<^verbatim>\<open>img.height\<close> of the decoded image (\<open>None\<close>: \<^verbatim>\<open>img.onerror\<close>), \<open>toDataURL\<close> the JPEG data
  URL of quality 0.7 of a canvas of the given size with the image drawn over it.
\<close>

record browser =
  readAsDataURL :: "File \<Rightarrow> string option"
  decode :: "string \<Rightarrow> (nat \<times> nat) option"
  toDataURL :: "string \<Rightarrow> nat \<Rightarrow> nat \<Rightarrow> string"

datatype work = ReadFile | DecodeImage | DrawAndEncode nat nat

text \<open>The promise's outcome (\<open>None\<close>: rejected) and the work done, in order.\<close>

definition compressImage :: "browser \<Rightarrow> File \<Rightarrow> string option \<times> work list" where
  "compressImage b file =
     (case readAsDataURL b file of
        None \<Rightarrow> (None, [ReadFile])
      | Some src \<Rightarrow>
          (case decode b src of
             None \<Rightarrow> (None, [ReadFile, DecodeImage])
           | Some (img_width, img_height) \<Rightarrow>
               let (width, height) = compressImage_canvas img_width img_height in
               (Some (toDataURL b src width height),
                [ReadFile, DecodeImage, DrawAndEncode width height])))"

text \<open>The component's state: the five \<^verbatim>\<open>useState\<close> cells.\<close>

record Home =
  st_image :: "string option"
  st_loading :: bool
  st_result :: string
  st_error :: "string option"
  st_copied :: bool

text \<open>The two messages of \<^verbatim>\<open>processFile\<close>, lines 67 and 79, as UTF-8 bytes.\<close>

definition select_an_image_file :: string where
  "select_an_image_file = map char_of
     [0xE7, 0x94, 0xBB, 0xE5, 0x83, 0x8F, 0xE3, 0x83, 0x95, 0xE3, 0x82, 0xA1,
      0xE3, 0x82, 0xA4, 0xE3, 0x83, 0xAB, 0xE3, 0x82, 0x92, 0xE9, 0x81, 0xB8,
      0xE6, 0x8A, 0x9E, 0xE3, 0x81, 0x97, 0xE3, 0x81, 0xA6, 0xE3, 0x81, 0x8F,
      0xE3, 0x81, 0xA0, 0xE3, 0x81, 0x95, 0xE3, 0x81, 0x84, 0xE3, 0x80, 0x82 :: nat]"

definition image_load_failed :: string where
  "image_load_failed = map char_of
     [0xE7, 0x94, 0xBB, 0xE5, 0x83, 0x8F, 0xE3, 0x81, 0xAE, 0xE8, 0xAA, 0xAD,
      0xE3, 0x81, 0xBF, 0xE8, 0xBE, 0xBC, 0xE3, 0x81, 0xBF, 0xE3, 0x81, 0xAB,
      0xE5, 0xA4, 0xB1, 0xE6, 0x95, 0x97, 0xE3, 0x81, 0x97, 0xE3, 0x81, 0xBE,
      0xE3, 0x81, 0x97, 0xE3, 0x81, 0x9F, 0xE3, 0x80, 0x82 :: nat]"

definition processFile :: "browser \<Rightarrow> File \<Rightarrow> Home \<Rightarrow> Home \<times> work list" where
  "processFile b file st =
     (if \<not> prefix ''image/'' (file_type file) then
        (st\<lparr>st_error := Some select_an_image_file\<rparr>, [])
      else
        (case compressImage b file of
           (Some compressedDataUrl, ws) \<Rightarrow>
             (st\<lparr>st_image := Some compressedDataUrl, st_error := None, st_result := []\<rparr>, ws)
         | (None, ws) \<Rightarrow> (st\<lparr>st_error := Some image_load_failed\<rparr>, ws)))"

section \<open>Concrete inputs\<close>

text \<open>
  Inputs at which the theorems below are instantiated: an engine whose \<open>gt\<close> is never true,
  three environments, a network that is down, a network that answers the OCR call (the one
  without an \<^verbatim>\<open>Authorization\<close> header) and the workflow call with given results,
  provider responses of the documented shapes, request bodies, a file that is no image, a
  browser that loads nothing and the page's initial state.
\<close>

definition no_gt :: "json \<Rightarrow> bool" where
  "no_gt v = False"

definition env_configured :: env where
  "env_configured =
     \<lparr>DIFY_API_KEY = Some ''app-key'', DIFY_API_URL = None,
      GOOGLE_VISION_API_KEY = Some ''vision-key''\<rparr>"

definition env_without_keys :: env where
  "env_without_keys =
     \<lparr>DIFY_API_KEY = None, DIFY_API_URL = None, GOOGLE_VISION_API_KEY = None\<rparr>"

definition env_without_vision_key :: env where
  "env_without_vision_key =
     \<lparr>DIFY_API_KEY = Some ''app-key'', DIFY_API_URL = None, GOOGLE_VISION_API_KEY = Some []\<rparr>"

definition fetch_failed :: fetch_result where
  "fetch_failed = Rejected (TypeError ''fetch failed'')"

definition offline :: "http_request \<Rightarrow> fetch_result" where
  "offline req = fetch_failed"

definition network :: "fetch_result \<Rightarrow> fetch_result \<Rightarrow> http_request \<Rightarrow> fetch_result" where
  "network ocr workflow req =
     (if map_of (headers req) ''Authorization'' = None then ocr else workflow)"

definition json_reply :: "nat \<Rightarrow> json \<Rightarrow> fetch_result" where
  "json_reply st v = Resolved \<lparr>res_status = st, res_text = JSON_stringify 0 v, res_json = Some v\<rparr>"

definition text_reply :: "nat \<Rightarrow> string \<Rightarrow> fetch_result" where
  "text_reply st t = Resolved \<lparr>res_status = st, res_text = t, res_json = None\<rparr>"

definition annotations :: "json list \<Rightarrow> json" where
  "annotations as = JObj [(''responses'', JArr [JObj [(''textAnnotations'', JArr as)]])]"

definition no_annotations :: json where
  "no_annotations = JObj [(''responses'', JArr [JObj []])]"

definition hello_world :: json where
  "hello_world = annotations [JObj [(''description'', JStr ''Hello World'')]]"

definition workflow_outputs :: "json \<Rightarrow> json" where
  "workflow_outputs outputs = JObj [(''data'', JObj [(''outputs'', outputs)])]"

definition image_only :: "string \<Rightarrow> json" where
  "image_only s = JObj [(''image'', JStr s)]"

definition image_and_prompt :: "string \<Rightarrow> string \<Rightarrow> json" where
  "image_and_prompt s p = JObj [(''image'', JStr s), (''prompt'', JStr p)]"

definition text_file :: File where
  "text_file = \<lparr>file_type = ''text/plain'', file_bytes = ''hello''\<rparr>"

definition no_browser :: browser where
  "no_browser = \<lparr>readAsDataURL = (\<lambda>f. None), decode = (\<lambda>s. None), toDataURL = (\<lambda>s w h. [])\<rparr>"

definition initial_state :: Home where
  "initial_state =
     \<lparr>st_image = None, st_loading = False, st_result = [], st_error = None, st_copied = False\<rparr>"

text \<open>
  What follows the first comma of a string, \<open>None\<close> when it has no comma: the reading of the
  image payload that \<^verbatim>\<open>split(',')[1]\<close> is compared with.
\<close>

definition after_first_comma :: "string \<Rightarrow> string option" where
  "after_first_comma s =
     (if CHR '','' \<in> set s then Some (tl (dropWhile (\<lambda>c. c \<noteq> CHR '','') s)) else None)"

section \<open>Properties of the route handler\<close>

subsection \<open>The stages of the handler\<close>

lemmas example_defs = no_gt_def env_configured_def env_without_keys_def fetch_failed_def
  offline_def network_def json_reply_def text_reply_def annotations_def no_annotations_def
  hello_world_def workflow_outputs_def image_only_def image_and_prompt_def

lemmas handler_defs = POST_def POST_try_def POST_vision_def POST_workflow_def visionRequest_def
  workflowRequest_def detections_of_def ocrText_of_def resultText_of_def nth_opt_def ok_def
  error_body_def answer_body_def props_def List.map_filter_def JSON_stringify_opt_def


lemma NextResponse_json_fixed [simp]:
  "NextResponse_json data 200 = Inr \<lparr>status = 200, payload = data\<rparr>"
  "NextResponse_json data 400 = Inr \<lparr>status = 400, payload = data\<rparr>"
  "NextResponse_json data 500 = Inr \<lparr>status = 500, payload = data\<rparr>"
  by (simp_all add: NextResponse_json_def)


lemma Inr_NextResponse_json:
  "NextResponse_json data st = Inr r \<Longrightarrow> payload r = data \<and> status r = st"
  by (auto simp add: NextResponse_json_def split: if_splits)

lemma fst_POST: "fst (POST gt e fetch b) =
   (case fst (POST_try gt e fetch b) of Inr r \<Rightarrow> r
    | Inl err \<Rightarrow> \<lparr>status = 500, payload = error_body (''Internal Server Error: '' @ message err)\<rparr>)"
  by (simp add: POST_def split: prod.splits sum.splits)

lemma snd_POST: "snd (POST gt e fetch b) = snd (POST_try gt e fetch b)"
  by (simp add: POST_def split: prod.splits sum.splits)

lemma POST_try_image_missing:
  "reqBody \<noteq> JNull \<Longrightarrow> \<not> truthy_opt (property reqBody ''image'') \<Longrightarrow>
   POST_try gt e fetch (Some reqBody) =
     (Inr \<lparr>status = 400, payload = error_body ''Image is required''\<rparr>, [])"
  by (cases reqBody) (simp_all add: POST_try_def)

lemma POST_try_not_configured:
  assumes "reqBody \<noteq> JNull" and "truthy_opt (property reqBody ''image'')"
    and "configured (DIFY_API_KEY e) = None \<or> configured (GOOGLE_VISION_API_KEY e) = None"
  shows "POST_try gt e fetch (Some reqBody) =
           (Inr \<lparr>status = 500, payload = error_body
               (if configured (DIFY_API_KEY e) = None then ''Dify API Key is not configured''
                else ''Google Vision API Key is not configured'')\<rparr>, [])"
  using assms by (cases reqBody) (auto simp add: POST_try_def split: option.splits)

lemma POST_try_vision:
  "property reqBody ''image'' = Some (JStr s) \<Longrightarrow> s \<noteq> [] \<Longrightarrow>
   configured (DIFY_API_KEY e) = Some difyApiKey \<Longrightarrow>
   configured (GOOGLE_VISION_API_KEY e) = Some googleApiKey \<Longrightarrow>
   POST_try gt e fetch (Some reqBody) =
     POST_vision gt e fetch difyApiKey googleApiKey (nth_opt (split CHR '','' s) 1)
       (property reqBody ''prompt'')"
  by (cases reqBody) (simp_all add: POST_try_def)

lemma snd_POST_workflow:
  "snd (POST_workflow e fetch difyApiKey ocrText prompt) =
     [workflowRequest e difyApiKey ocrText prompt]"
  by (simp add: POST_workflow_def Let_def split: fetch_result.splits option.splits sum.splits)

lemma take_1_POST_vision:
  "take 1 (snd (POST_vision gt e fetch difyApiKey googleApiKey base64Data prompt)) =
     [visionRequest googleApiKey base64Data]"
  by (simp add: POST_vision_def Let_def
      split: fetch_result.splits option.splits sum.splits prod.splits)

lemma POST_workflow_stage:
  assumes "property reqBody ''image'' = Some (JStr s)" and "s \<noteq> []"
    and "configured (DIFY_API_KEY e) = Some difyApiKey"
    and "configured (GOOGLE_VISION_API_KEY e) = Some googleApiKey"
    and "fetch (visionRequest googleApiKey (nth_opt (split CHR '','' s) 1)) = Resolved visionRes"
    and "ok visionRes" and "res_json visionRes = Some visionData"
    and "detections_of visionData = Inr detections"
    and "ocrText_of gt detections = Inr (Some ocrText)" and "truthy ocrText"
  shows "POST_try gt e fetch (Some reqBody) =
           (fst (POST_workflow e fetch difyApiKey ocrText (property reqBody ''prompt'')),
            [visionRequest googleApiKey (nth_opt (split CHR '','' s) 1),
             workflowRequest e difyApiKey ocrText (property reqBody ''prompt'')])"
proof -
  have "POST_vision gt e fetch difyApiKey googleApiKey (nth_opt (split CHR '','' s) 1)
               (property reqBody ''prompt'') =
        (fst (POST_workflow e fetch difyApiKey ocrText (property reqBody ''prompt'')),
         visionRequest googleApiKey (nth_opt (split CHR '','' s) 1) #
           snd (POST_workflow e fetch difyApiKey ocrText (property reqBody ''prompt'')))"
    using assms(5-10) by (simp add: POST_vision_def split: prod.splits)
  then show ?thesis
    using assms(1-4) by (simp add: POST_try_vision snd_POST_workflow)
qed




lemma split_unfold:
  "split c s = takeWhile (\<lambda>x. x \<noteq> c) s #
     (if c \<in> set s then split c (tl (dropWhile (\<lambda>x. x \<noteq> c) s)) else [])"
  by (induction s) (auto split: list.splits)

lemma split_second:
  "nth_opt (split c s) 1 =
     (if c \<in> set s then Some (takeWhile (\<lambda>x. x \<noteq> c) (tl (dropWhile (\<lambda>x. x \<noteq> c) s)))
      else None)"
proof (cases "c \<in> set s")
  case True
  have "split c s = takeWhile (\<lambda>x. x \<noteq> c) s # split c (tl (dropWhile (\<lambda>x. x \<noteq> c) s))"
    using True split_unfold [of c s] by simp
  moreover have "split c (tl (dropWhile (\<lambda>x. x \<noteq> c) s)) =
      takeWhile (\<lambda>x. x \<noteq> c) (tl (dropWhile (\<lambda>x. x \<noteq> c) s)) #
        (if c \<in> set (tl (dropWhile (\<lambda>x. x \<noteq> c) s))
         then split c (tl (dropWhile (\<lambda>x. x \<noteq> c) (tl (dropWhile (\<lambda>x. x \<noteq> c) s)))) else [])"
    by (rule split_unfold)
  ultimately show ?thesis
    using True by (simp add: nth_opt_def)
next
  case False
  then have "split c s = [takeWhile (\<lambda>x. x \<noteq> c) s]"
    using split_unfold [of c s] by simp
  then show ?thesis
    using False by (simp add: nth_opt_def)
qed

lemma POST_workflow_not_image_required:
  "fst (POST_workflow e fetch difyApiKey ocrText prompt) \<noteq>
     Inr \<lparr>status = 400, payload = error_body ''Image is required''\<rparr>"
  by (auto simp add: POST_workflow_def Let_def error_body_def answer_body_def props_def
      List.map_filter_def
      split: fetch_result.splits option.splits sum.splits dest!: Inr_NextResponse_json)

lemma POST_workflow_not_image_required_pair:
  "POST_workflow e fetch difyApiKey ocrText prompt \<noteq>
     (Inr \<lparr>status = 400, payload = JObj [(''error'', JStr ''Image is required'')]\<rparr>, reqs)"
  using POST_workflow_not_image_required [of e fetch difyApiKey ocrText prompt]
  by (auto simp add: error_body_def)

lemma POST_vision_not_image_required:
  "fst (POST_vision gt e fetch difyApiKey googleApiKey base64Data prompt) \<noteq>
     Inr \<lparr>status = 400, payload = error_body ''Image is required''\<rparr>"
  by (auto simp add: POST_vision_def Let_def error_body_def POST_workflow_not_image_required_pair
      split: fetch_result.splits option.splits sum.splits prod.splits
      dest!: Inr_NextResponse_json)

lemma POST_try_not_image_required:
  assumes "property reqBody ''image'' = Some (JStr s)" and "s \<noteq> []"
  shows "fst (POST_try gt e fetch (Some reqBody)) \<noteq>
           Inr \<lparr>status = 400, payload = error_body ''Image is required''\<rparr>"
  using assms POST_vision_not_image_required [of gt e fetch]
  by (cases reqBody) (auto simp add: POST_try_def error_body_def split: option.splits)

subsection \<open>Missing image\<close>



text \<open>The body \<^verbatim>\<open>null\<close> has no properties to read: the destructuring at line 5 throws.\<close>

lemma null_body_is_internal_error:
  "status (fst (POST gt e fetch (Some JNull))) = 500 \<and> snd (POST gt e fetch (Some JNull)) = []"
  by (simp add: POST_def POST_try_def)

subsection \<open>Missing credentials\<close>

text \<open>
  Claim C3, as amended. For a request that carries an image payload, if the workflow key or
  the OCR key is unset or empty, the handler answers with status 500 and a
  \<^verbatim>\<open>not configured\<close> message, and makes no outbound request.
\<close>

theorem credentials_required:
  assumes "reqBody \<noteq> JNull" and "truthy_opt (property reqBody ''image'')"
    and "configured (DIFY_API_KEY e) = None \<or> configured (GOOGLE_VISION_API_KEY e) = None"
  shows "POST gt e fetch (Some reqBody) =
           (\<lparr>status = 500, payload = error_body
               (if configured (DIFY_API_KEY e) = None then ''Dify API Key is not configured''
                else ''Google Vision API Key is not configured'')\<rparr>, [])"
  using POST_try_not_configured [OF assms] by (simp add: POST_def)

text \<open>No credential at all, and an OCR key that is set to the empty string.\<close>

theorem credentials_required_witness:
  "image_only ''data:image/jpeg;base64,AAAA'' \<noteq> JNull
   \<and> truthy_opt (property (image_only ''data:image/jpeg;base64,AAAA'') ''image'')
   \<and> configured (DIFY_API_KEY env_without_keys) = None
   \<and> POST no_gt env_without_keys offline (Some (image_only ''data:image/jpeg;base64,AAAA'')) =
        (\<lparr>status = 500, payload = error_body ''Dify API Key is not configured''\<rparr>, [])
   \<and> configured (DIFY_API_KEY env_without_vision_key) = Some ''app-key''
   \<and> configured (GOOGLE_VISION_API_KEY env_without_vision_key) = None
   \<and> POST no_gt env_without_vision_key offline
         (Some (image_only ''data:image/jpeg;base64,AAAA'')) =
        (\<lparr>status = 500, payload = error_body ''Google Vision API Key is not configured''\<rparr>, [])"
  using credentials_required [of "image_only ''data:image/jpeg;base64,AAAA''" env_without_keys
      no_gt offline]
    credentials_required [of "image_only ''data:image/jpeg;base64,AAAA''" env_without_vision_key
      no_gt offline]
  by (simp add: image_only_def env_without_keys_def env_without_vision_key_def)

text \<open>
  Claim C3 as stated, for every request, fails: with no credential configured, a request
  without an image is answered with status 400, not 500.
\<close>

theorem credentials_required_counterexample:
  "configured (DIFY_API_KEY env_without_keys) = None
   \<and> configured (GOOGLE_VISION_API_KEY env_without_keys) = None
   \<and> POST no_gt env_without_keys offline (Some (JObj [])) =
        (\<lparr>status = 400, payload = error_body ''Image is required''\<rparr>, [])
   \<and> status (fst (POST no_gt env_without_keys offline (Some (JObj [])))) \<noteq> 500"
  by (simp add: env_without_keys_def handler_defs)

subsection \<open>No text detected\<close>



text \<open>
  An OCR response without \<^verbatim>\<open>responses\<close> is another matter: reading \<^verbatim>\<open>responses[0]\<close> throws.
\<close>

lemma no_responses_is_internal_error:
  "status (fst (POST no_gt env_configured (network (json_reply 200 (JObj [])) fetch_failed)
          (Some (image_only ''data:image/jpeg;base64,AAAA'')))) = 500"
  by (simp add: example_defs handler_defs)

subsection \<open>Provider errors\<close>



text \<open>A status that allows no body cannot be mirrored: the handler answers 500.\<close>

lemma not_modified_is_not_mirrored:
  "fst (POST no_gt env_configured (network (text_reply 304 []) fetch_failed)
          (Some (image_only ''data:image/jpeg;base64,AAAA''))) =
     \<lparr>status = 500, payload = error_body
        ''Internal Server Error: Response constructor: Invalid response status code''\<rparr>"
  by (simp add: example_defs handler_defs NextResponse_json_def)

subsection \<open>The answer\<close>



text \<open>The serialization in the second example, written out.\<close>

lemma JSON_stringify_foo_bar:
  "JSON_stringify 2 (JObj [(''foo'', JStr ''bar'')]) =
     ''{'' @ [CHR 0x0A] @ ''  '' @ [CHR 0x22] @ ''foo'' @ [CHR 0x22] @ '': ''
       @ [CHR 0x22] @ ''bar'' @ [CHR 0x22] @ [CHR 0x0A] @ ''}''"
  by (simp add: JSON_stringify_def wrap_def QuoteJSONString_def QuoteJSONChar_def numeral_2_eq_2)




subsection \<open>The instruction\<close>

text \<open>
  Claim C8, as amended. Once the OCR call has yielded a text, the second outbound request is
  the workflow call, and its \<^verbatim>\<open>user_prompt\<close> input is the default instruction when the
  request's \<^verbatim>\<open>prompt\<close> is absent or falsy, and the prompt itself when it is truthy.
\<close>

theorem user_prompt_passed:
  assumes "property reqBody ''image'' = Some (JStr s)" and "s \<noteq> []"
    and "configured (DIFY_API_KEY e) = Some difyApiKey"
    and "configured (GOOGLE_VISION_API_KEY e) = Some googleApiKey"
    and "fetch (visionRequest googleApiKey (nth_opt (split CHR '','' s) 1)) = Resolved visionRes"
    and "ok visionRes" and "res_json visionRes = Some visionData"
    and "detections_of visionData = Inr detections"
    and "ocrText_of gt detections = Inr (Some ocrText)" and "truthy ocrText"
  shows "snd (POST gt e fetch (Some reqBody)) =
           [visionRequest googleApiKey (nth_opt (split CHR '','' s) 1),
            \<lparr>url = difyApiUrl e @ ''/workflows/run'',
             http_method = ''POST'',
             headers = [(''Authorization'', ''Bearer '' @ difyApiKey),
                        (''Content-Type'', ''application/json'')],
             body = JSON_stringify 0
               (JObj [(''inputs'', JObj
                        [(''ocr_text'', ocrText),
                         (''user_prompt'',
                            (case property reqBody ''prompt'' of
                               None \<Rightarrow> JStr default_prompt
                             | Some prompt \<Rightarrow>
                                 if truthy prompt then prompt else JStr default_prompt))]),
                      (''response_mode'', JStr ''blocking''),
                      (''user'', JStr ''image-extractor-user'')])\<rparr>]"
proof -
  have "snd (POST gt e fetch (Some reqBody)) =
          [visionRequest googleApiKey (nth_opt (split CHR '','' s) 1),
           workflowRequest e difyApiKey ocrText (property reqBody ''prompt'')]"
    using POST_workflow_stage [where fetch = fetch, OF assms] by (simp add: snd_POST)
  then show ?thesis
    by (cases "property reqBody ''prompt''") (simp_all add: workflowRequest_def workflowPayload_def)
qed

text \<open>A request without a prompt and a request with one.\<close>

theorem user_prompt_passed_witness:
  "property (image_only ''data:image/jpeg;base64,AAAA'') ''image'' =
     Some (JStr ''data:image/jpeg;base64,AAAA'')
   \<and> property (image_only ''data:image/jpeg;base64,AAAA'') ''prompt'' = None
   \<and> property (image_and_prompt ''data:image/jpeg;base64,AAAA'' ''List the items'') ''prompt'' =
        Some (JStr ''List the items'')
   \<and> configured (DIFY_API_KEY env_configured) = Some ''app-key''
   \<and> configured (GOOGLE_VISION_API_KEY env_configured) = Some ''vision-key''
   \<and> ocrText_of no_gt (Some (JArr [JObj [(''description'', JStr ''Hello World'')]])) =
        Inr (Some (JStr ''Hello World''))
   \<and> body (snd (POST no_gt env_configured (network (json_reply 200 hello_world) fetch_failed)
         (Some (image_only ''data:image/jpeg;base64,AAAA''))) ! 1) =
        JSON_stringify 0
          (JObj [(''inputs'', JObj [(''ocr_text'', JStr ''Hello World''),
                                    (''user_prompt'', JStr default_prompt)]),
                 (''response_mode'', JStr ''blocking''),
                 (''user'', JStr ''image-extractor-user'')])
   \<and> body (snd (POST no_gt env_configured (network (json_reply 200 hello_world) fetch_failed)
         (Some (image_and_prompt ''data:image/jpeg;base64,AAAA'' ''List the items''))) ! 1) =
        JSON_stringify 0
          (JObj [(''inputs'', JObj [(''ocr_text'', JStr ''Hello World''),
                                    (''user_prompt'', JStr ''List the items'')]),
                 (''response_mode'', JStr ''blocking''),
                 (''user'', JStr ''image-extractor-user'')])"
  using user_prompt_passed [where reqBody = "image_only ''data:image/jpeg;base64,AAAA''"
      and s = "''data:image/jpeg;base64,AAAA''" and e = env_configured
      and difyApiKey = "''app-key''" and googleApiKey = "''vision-key''"
      and fetch = "network (json_reply 200 hello_world) fetch_failed"
      and visionRes = "\<lparr>res_status = 200, res_text = JSON_stringify 0 hello_world,
                        res_json = Some hello_world\<rparr>"
      and visionData = hello_world
      and detections = "Some (JArr [JObj [(''description'', JStr ''Hello World'')]])"
      and gt = no_gt and ocrText = "JStr ''Hello World''"]
    user_prompt_passed [where
          reqBody = "image_and_prompt ''data:image/jpeg;base64,AAAA'' ''List the items''"
      and s = "''data:image/jpeg;base64,AAAA''" and e = env_configured
      and difyApiKey = "''app-key''" and googleApiKey = "''vision-key''"
      and fetch = "network (json_reply 200 hello_world) fetch_failed"
      and visionRes = "\<lparr>res_status = 200, res_text = JSON_stringify 0 hello_world,
                        res_json = Some hello_world\<rparr>"
      and visionData = hello_world
      and detections = "Some (JArr [JObj [(''description'', JStr ''Hello World'')]])"
      and gt = no_gt and ocrText = "JStr ''Hello World''"]
  by (simp add: example_defs visionRequest_def detections_of_def
      ocrText_of_def nth_opt_def ok_def)

text \<open>
  Claim C8 as stated, with every supplied prompt passed on, fails: a prompt that is the empty
  string is supplied, and the default instruction is passed.
\<close>

theorem user_prompt_passed_counterexample:
  "property (image_and_prompt ''data:image/jpeg;base64,AAAA'' []) ''prompt'' = Some (JStr [])
   \<and> snd (POST no_gt env_configured (network (json_reply 200 hello_world) fetch_failed)
         (Some (image_and_prompt ''data:image/jpeg;base64,AAAA'' []))) =
       [visionRequest ''vision-key'' (Some ''AAAA''),
        \<lparr>url = ''https://api.dify.ai/v1/workflows/run'',
         http_method = ''POST'',
         headers = [(''Authorization'', ''Bearer app-key''),
                    (''Content-Type'', ''application/json'')],
         body = JSON_stringify 0
           (JObj [(''inputs'', JObj [(''ocr_text'', JStr ''Hello World''),
                                     (''user_prompt'', JStr default_prompt)]),
                  (''response_mode'', JStr ''blocking''),
                  (''user'', JStr ''image-extractor-user'')])\<rparr>]
   \<and> JSON_stringify 0
           (JObj [(''inputs'', JObj [(''ocr_text'', JStr ''Hello World''),
                                     (''user_prompt'', JStr default_prompt)]),
                  (''response_mode'', JStr ''blocking''),
                  (''user'', JStr ''image-extractor-user'')])
       \<noteq> JSON_stringify 0
           (JObj [(''inputs'', JObj [(''ocr_text'', JStr ''Hello World''),
                                     (''user_prompt'', JStr [])]),
                  (''response_mode'', JStr ''blocking''),
                  (''user'', JStr ''image-extractor-user'')])"
proof -
  have "JSON_stringify 0
           (JObj [(''inputs'', JObj [(''ocr_text'', JStr ''Hello World''),
                                     (''user_prompt'', JStr default_prompt)]),
                  (''response_mode'', JStr ''blocking''),
                  (''user'', JStr ''image-extractor-user'')])
       \<noteq> JSON_stringify 0
           (JObj [(''inputs'', JObj [(''ocr_text'', JStr ''Hello World''),
                                     (''user_prompt'', JStr [])]),
                  (''response_mode'', JStr ''blocking''),
                  (''user'', JStr ''image-extractor-user'')])"
    by (simp add: JSON_stringify_def wrap_def QuoteJSONString_def QuoteJSONChar_def
        default_prompt_def)
  then show ?thesis
    by (simp add: example_defs handler_defs workflowPayload_def
        difyApiUrl_def)
qed

subsection \<open>The image payload\<close>

text \<open>
  Claim C10, as amended. For an image that is any non-empty string, with both credentials
  configured, the first outbound request is the OCR call, and its image content is the part
  of the string between its first comma and its second (to the end when there is no second
  comma), or absent when the string has no comma. Such a request is never answered with
  \<^verbatim>\<open>Image is required\<close>; a request whose image is absent or the empty string is.
\<close>

theorem image_format_not_validated:
  shows "(property reqBody ''image'' = Some (JStr s) \<and> s \<noteq> []
            \<and> configured (DIFY_API_KEY e) = Some difyApiKey
            \<and> configured (GOOGLE_VISION_API_KEY e) = Some googleApiKey \<longrightarrow>
          take 1 (snd (POST gt e fetch (Some reqBody))) =
            [visionRequest googleApiKey
               (if CHR '','' \<in> set s
                then Some (takeWhile (\<lambda>c. c \<noteq> CHR '','')
                             (tl (dropWhile (\<lambda>c. c \<noteq> CHR '','') s)))
                else None)])
       \<and> (property reqBody ''image'' = Some (JStr s) \<and> s \<noteq> [] \<longrightarrow>
          fst (POST gt e fetch (Some reqBody)) \<noteq>
            \<lparr>status = 400, payload = error_body ''Image is required''\<rparr>)
       \<and> (reqBody \<noteq> JNull
            \<and> (property reqBody ''image'' = None \<or> property reqBody ''image'' = Some (JStr [])) \<longrightarrow>
          POST gt e fetch (Some reqBody) =
            (\<lparr>status = 400, payload = error_body ''Image is required''\<rparr>, []))"
proof (intro conjI impI)
  assume a: "property reqBody ''image'' = Some (JStr s) \<and> s \<noteq> []
            \<and> configured (DIFY_API_KEY e) = Some difyApiKey
            \<and> configured (GOOGLE_VISION_API_KEY e) = Some googleApiKey"
  then have "POST_try gt e fetch (Some reqBody) =
     POST_vision gt e fetch difyApiKey googleApiKey (nth_opt (split CHR '','' s) 1)
       (property reqBody ''prompt'')"
    by (simp add: POST_try_vision)
  then have "take 1 (snd (POST gt e fetch (Some reqBody))) =
      [visionRequest googleApiKey (nth_opt (split CHR '','' s) 1)]"
    by (simp only: snd_POST take_1_POST_vision)
  then show "take 1 (snd (POST gt e fetch (Some reqBody))) =
            [visionRequest googleApiKey
               (if CHR '','' \<in> set s
                then Some (takeWhile (\<lambda>c. c \<noteq> CHR '','')
                             (tl (dropWhile (\<lambda>c. c \<noteq> CHR '','') s)))
                else None)]"
    by (simp only: split_second)
next
  assume a: "property reqBody ''image'' = Some (JStr s) \<and> s \<noteq> []"
  then have "fst (POST_try gt e fetch (Some reqBody)) \<noteq>
           Inr \<lparr>status = 400, payload = error_body ''Image is required''\<rparr>"
    by (simp add: POST_try_not_image_required)
  then show "fst (POST gt e fetch (Some reqBody)) \<noteq>
            \<lparr>status = 400, payload = error_body ''Image is required''\<rparr>"
    by (cases "fst (POST_try gt e fetch (Some reqBody))") (auto simp add: fst_POST)
next
  assume a: "reqBody \<noteq> JNull
            \<and> (property reqBody ''image'' = None \<or> property reqBody ''image'' = Some (JStr []))"
  then have "\<not> truthy_opt (property reqBody ''image'')"
    by auto
  then show "POST gt e fetch (Some reqBody) =
            (\<lparr>status = 400, payload = error_body ''Image is required''\<rparr>, [])"
    using a by (simp add: POST_def POST_try_image_missing)
qed

theorem image_format_not_validated_witness:
  "property (image_only ''a,b,c'') ''image'' = Some (JStr ''a,b,c'')
   \<and> property (image_only ''not a data URL'') ''image'' = Some (JStr ''not a data URL'')
   \<and> configured (DIFY_API_KEY env_configured) = Some ''app-key''
   \<and> configured (GOOGLE_VISION_API_KEY env_configured) = Some ''vision-key''
   \<and> take 1 (snd (POST no_gt env_configured offline (Some (image_only ''a,b,c'')))) =
        [visionRequest ''vision-key'' (Some ''b'')]
   \<and> take 1 (snd (POST no_gt env_configured offline (Some (image_only ''not a data URL'')))) =
        [visionRequest ''vision-key'' None]
   \<and> fst (POST no_gt env_configured offline (Some (image_only ''a,b,c''))) \<noteq>
        \<lparr>status = 400, payload = error_body ''Image is required''\<rparr>
   \<and> property (image_only []) ''image'' = Some (JStr [])
   \<and> POST no_gt env_configured offline (Some (image_only [])) =
        (\<lparr>status = 400, payload = error_body ''Image is required''\<rparr>, [])"
  using image_format_not_validated [where reqBody = "image_only ''a,b,c''" and s = "''a,b,c''"
      and e = env_configured and difyApiKey = "''app-key''" and googleApiKey = "''vision-key''"
      and gt = no_gt and fetch = offline]
    image_format_not_validated [where reqBody = "image_only ''not a data URL''"
      and s = "''not a data URL''"
      and e = env_configured and difyApiKey = "''app-key''" and googleApiKey = "''vision-key''"
      and gt = no_gt and fetch = offline]
    image_format_not_validated [where reqBody = "image_only []" and s = "[]"
      and e = env_configured and difyApiKey = "''app-key''" and googleApiKey = "''vision-key''"
      and gt = no_gt and fetch = offline]
  by (simp add: image_only_def env_configured_def)

text \<open>
  Claim C10 as stated, with the OCR provider given whatever follows the first comma, fails for
  a string with two commas: of \<^verbatim>\<open>a,b,c\<close> the provider is given \<^verbatim>\<open>b\<close>, and what follows the first
  comma is \<^verbatim>\<open>b,c\<close>.
\<close>

theorem image_format_not_validated_counterexample:
  "after_first_comma ''a,b,c'' = Some ''b,c''
   \<and> snd (POST no_gt env_configured offline (Some (image_only ''a,b,c''))) =
        [visionRequest ''vision-key'' (Some ''b'')]
   \<and> visionRequest ''vision-key'' (Some ''b'') \<noteq>
        visionRequest ''vision-key'' (after_first_comma ''a,b,c'')"
  by (simp add: after_first_comma_def example_defs handler_defs visionPayload_def
      JSON_stringify_def wrap_def QuoteJSONString_def QuoteJSONChar_def)

section \<open>Properties of the page\<close>

subsection \<open>Files that are not images\<close>

text \<open>
  Claim C7. For a file whose MIME type does not begin with \<^verbatim>\<open>image/\<close>, \<^verbatim>\<open>processFile\<close> sets the
  error message that asks for an image file and does nothing else: the file is not read,
  nothing is decoded, drawn or encoded, and the rest of the state is unchanged.
  (\<^verbatim>\<open>processFile\<close> makes no network call on any path.)
\<close>

theorem not_an_image:
  assumes "\<not> prefix ''image/'' (file_type file)"
  shows "processFile b file st = (st\<lparr>st_error := Some select_an_image_file\<rparr>, [])"
  using assms by (simp add: processFile_def)

theorem not_an_image_witness:
  "\<not> prefix ''image/'' (file_type text_file)
   \<and> processFile no_browser text_file initial_state =
        (initial_state\<lparr>st_error := Some select_an_image_file\<rparr>, [])"
  using not_an_image [of text_file no_browser initial_state]
  by (simp add: text_file_def)

subsection \<open>Rounding\<close>


lemma ilog2_gt:
  assumes "0 < x"
  shows "x < 2 powi (ilog2 x + 1)"
proof (cases "1 \<le> x")
  case True
  define n where "n = nat \<lfloor>x\<rfloor>"
  have n: "0 < n" using True by (simp add: n_def)
  define k where "k = floorlog 2 n"
  have "n < 2 ^ k"
    using floorlog_bounds [of n 2] n by (simp add: k_def)
  then have "int n < 2 ^ k"
    by (metis of_nat_less_iff of_nat_numeral of_nat_power)
  moreover have "int n = \<lfloor>x\<rfloor>" using True by (simp add: n_def)
  ultimately have "\<lfloor>x\<rfloor> < 2 ^ k" by simp
  then have "x < of_int (2 ^ k)" by (simp only: floor_less_iff)
  then have "x < 2 ^ k" by simp
  moreover have "ilog2 x + 1 = int k"
    using True by (simp add: ilog2_def k_def n_def)
  ultimately show ?thesis by simp
next
  case False
  then have x1: "x < 1" by simp
  define m where "m = nat (\<lceil>1 / x\<rceil> - 1)"
  define k where "k = floorlog 2 m"
  have "1 < 1 / x" using assms x1 by simp
  then have c: "2 \<le> \<lceil>1 / x\<rceil>" by linarith
  then have m: "0 < m" by (simp add: m_def)
  then have k: "0 < k" by (simp add: k_def floorlog_def)
  have "2 ^ (k - 1) \<le> m"
    using floorlog_bounds [of m 2] m by (simp add: k_def)
  then have "(2 :: int) ^ (k - 1) \<le> int m"
    by (metis of_nat_le_iff of_nat_numeral of_nat_power)
  moreover have "0 \<le> \<lceil>1 / x\<rceil> - 1"
    using c by linarith
  then have "int m = \<lceil>1 / x\<rceil> - 1"
    unfolding m_def by (rule nat_0_le)
  ultimately have "2 ^ (k - 1) < \<lceil>1 / x\<rceil>" by linarith
  then have "of_int (2 ^ (k - 1)) < 1 / x" by (simp only: less_ceiling_iff)
  then have "2 ^ (k - 1) < 1 / x" by simp
  then have "2 ^ (k - 1) * x < 1"
    using assms by (simp add: field_simps)
  then have "x < 1 / 2 ^ (k - 1)"
    by (simp add: field_simps)
  moreover have "ilog2 x + 1 = - int (k - 1)"
    using False k by (simp add: ilog2_def k_def m_def)
  moreover have "(2::rat) powi (- int (k - 1)) = 1 / 2 ^ (k - 1)"
    by (simp only: power_int_minus power_int_of_nat inverse_eq_divide)
  ultimately show ?thesis by simp
qed




text \<open>The double nearest to one tenth.\<close>

lemma fl_tenth: "fl (1 / 10) = 3602879701896397 / 36028797018963968"
  by code_simp





lemma canvas_dimension_of_nat:
  "n \<le> 1024 \<Longrightarrow> canvas_dimension dflt (of_nat n) = n"
  by (simp add: canvas_dimension_def Let_def)

lemma canvas_dimension_1024: "canvas_dimension dflt 1024 = 1024"
  using canvas_dimension_of_nat [of 1024 dflt] by simp

lemma of_nat_gt_1024: "((1024 :: rat) < of_nat n) = (1024 < n)"
  by (metis of_nat_less_iff of_nat_numeral)

lemma compressImage_canvas_landscape:
  assumes "img_height < img_width" and "1024 < img_width"
  shows "compressImage_canvas img_width img_height =
           (1024, canvas_dimension 150 (fl (of_nat img_height * fl (1024 / of_nat img_width))))"
  using assms
  by (simp add: compressImage_canvas_def Let_def MAX_WIDTH_def of_nat_gt_1024
      canvas_dimension_1024)

lemma compressImage_canvas_portrait:
  assumes "\<not> img_height < img_width" and "1024 < img_height"
  shows "compressImage_canvas img_width img_height =
           (canvas_dimension 300 (fl (of_nat img_width * fl (1024 / of_nat img_height))), 1024)"
  using assms
  by (simp add: compressImage_canvas_def Let_def MAX_HEIGHT_def of_nat_gt_1024
      canvas_dimension_1024)


subsection \<open>The size of the canvas\<close>



text \<open>
  Rounding is visible: \<^verbatim>\<open>1568 * (1024 / 1568)\<close> is \<^verbatim>\<open>1023.9999999999999\<close> in double precision,
  so a square image of that size gets a canvas of 1023 by 1024.
\<close>

lemma fl_1024_1568: "fl (1568 * fl (32 / 49)) = 9007199254740991 / 8796093022208"
  by code_simp

lemma floor_fl_1024_1568: "\<lfloor>fl (1568 * fl (32 / 49))\<rfloor> = 1023"
  unfolding fl_1024_1568 by (rule floor_unique) simp_all

lemma compressImage_canvas_square_1568: "compressImage_canvas 1568 1568 = (1023, 1024)"
proof -
  have "compressImage_canvas 1568 1568 =
          (canvas_dimension 300 (fl (of_nat 1568 * fl (1024 / of_nat 1568))), 1024)"
    by (rule compressImage_canvas_portrait) simp_all
  then show ?thesis
    by (simp add: floor_fl_1024_1568 canvas_dimension_def)
qed

lemma fl_1024_4000: "fl (3000 * fl (32 / 125)) = 768"
  by code_simp

lemma compressImage_canvas_4000_3000: "compressImage_canvas 4000 3000 = (1024, 768)"
proof -
  have "compressImage_canvas 4000 3000 =
          (1024, canvas_dimension 150 (fl (of_nat 3000 * fl (1024 / of_nat 4000))))"
    by (rule compressImage_canvas_landscape) simp_all
  then show ?thesis
    by (simp add: fl_1024_4000 canvas_dimension_def)
qed

end
